theory Spec2Isabelle
  imports Complex_Main
begin

section \<open>Values, exceptions and the process state\<close>

text \<open>
  The service is \<^verbatim>\<open>src/ai_service.py\<close>. Its handlers read the decoded JSON body of a
  request and build dictionaries that \<^verbatim>\<open>jsonify\<close> serialises. A decoded JSON value is one
  of Python's \<^verbatim>\<open>None\<close>, \<^verbatim>\<open>bool\<close>, \<^verbatim>\<open>int\<close>, \<^verbatim>\<open>float\<close>, \<^verbatim>\<open>str\<close>, \<^verbatim>\<open>list\<close> and
  \<^verbatim>\<open>dict\<close>; a dictionary is kept as an association list in insertion order. Python's
  floats are modelled as real numbers: the thresholds \<^verbatim>\<open>99.8\<close>, \<^verbatim>\<open>99.0\<close>, \<^verbatim>\<open>95.0\<close> are
  the reals of the same name and arithmetic is exact. A float that \<^verbatim>\<open>round(x, 2)\<close>
  returns is the double nearest to a multiple of 0.01 and stands here for that multiple,
  which is also what its \<^verbatim>\<open>repr\<close> and the JSON body print; comparing two such values, or
  one with a threshold, gives the same answer on the doubles as on the reals. The sums and
  products inside \<^verbatim>\<open>calculate_entropy\<close> and \<^verbatim>\<open>random.uniform\<close> are exact here and rounded
  to doubles in the interpreter, so when the exact sum is within a rounding error of a
  tie between two hundredths the interpreter's \<^verbatim>\<open>round\<close> can give the neighbouring
  hundredth. The bounds and relations proved below hold on both sides of such a tie, and
  at the two sample states evaluated below the entropy is the same in both (95.0 and
  100.0).
\<close>

datatype json =
    JNull
  | JBool bool
  | JInt int
  | JFloat real
  | JStr string
  | JArr "json list"
  | JObj "(string \<times> json) list"

text \<open>The exceptions the handlers can meet; each carries the text \<^verbatim>\<open>str(e)\<close> gives.\<close>

datatype exn =
    AttributeError string
  | TypeError string
  | HTTPException string

fun str_exn :: "exn \<Rightarrow> string" where
  "str_exn (AttributeError m) = m"
| "str_exn (TypeError m) = m"
| "str_exn (HTTPException m) = m"

fun type_name :: "json \<Rightarrow> string" where
  "type_name JNull = ''NoneType''"
| "type_name (JBool _) = ''bool''"
| "type_name (JInt _) = ''int''"
| "type_name (JFloat _) = ''float''"
| "type_name (JStr _) = ''str''"
| "type_name (JArr _) = ''list''"
| "type_name (JObj _) = ''dict''"

definition quoted :: "string \<Rightarrow> string" where
  "quoted s = [CHR 0x27] @ s @ [CHR 0x27]"

text \<open>Python's truth value of an object, as \<^verbatim>\<open>not x\<close> tests it.\<close>

fun truthy :: "json \<Rightarrow> bool" where
  "truthy JNull = False"
| "truthy (JBool b) = b"
| "truthy (JInt i) = (i \<noteq> 0)"
| "truthy (JFloat r) = (r \<noteq> 0)"
| "truthy (JStr s) = (s \<noteq> [])"
| "truthy (JArr xs) = (xs \<noteq> [])"
| "truthy (JObj kvs) = (kvs \<noteq> [])"

text \<open>
  \<^verbatim>\<open>data.get(key, default)\<close>: on a dictionary the value under the key, or the default; on
  any other object the attribute lookup raises \<^verbatim>\<open>AttributeError\<close>.
\<close>

fun py_get :: "json \<Rightarrow> string \<Rightarrow> json \<Rightarrow> exn + json" where
  "py_get (JObj kvs) k d = Inr (case map_of kvs k of None \<Rightarrow> d | Some v \<Rightarrow> v)"
| "py_get v k d =
     Inl (AttributeError (quoted (type_name v) @ '' object has no attribute '' @ quoted ''get''))"

text \<open>Reading a field of a response body.\<close>

fun field :: "string \<Rightarrow> json \<Rightarrow> json option" where
  "field k (JObj kvs) = map_of kvs k"
| "field k _ = None"

fun keys :: "json \<Rightarrow> string list" where
  "keys (JObj kvs) = map fst kvs"
| "keys _ = []"

text \<open>
  What the code reads from its process besides its arguments: the interpreter's hash of
  hashable objects (fixed for one process run, salted per run for strings), the state of
  the \<^verbatim>\<open>random\<close> module's generator (the raw outputs it will give, \<open>gen w 0\<close> being
  the next one), and the clock. \<^verbatim>\<open>delays\<close>
  records every duration passed to \<^verbatim>\<open>time.sleep\<close>, in order.
\<close>

record world =
  py_hash :: "json \<Rightarrow> int"
  gen :: "nat \<Rightarrow> nat"
  clock :: real
  delays :: "real list"

text \<open>\<^verbatim>\<open>hash(x)\<close>: lists and dictionaries are unhashable.\<close>

fun hash_py :: "world \<Rightarrow> json \<Rightarrow> exn + int" where
  "hash_py w (JArr xs) = Inl (TypeError (''unhashable type: '' @ quoted ''list''))"
| "hash_py w (JObj kvs) = Inl (TypeError (''unhashable type: '' @ quoted ''dict''))"
| "hash_py w v = Inr (py_hash w v)"

subsection \<open>The \<^verbatim>\<open>random\<close> and \<^verbatim>\<open>time\<close> modules\<close>

text \<open>
  \<^verbatim>\<open>random.random()\<close> is a 53-bit integer divided by \<open>2^53\<close>, so it lies in \<open>[0, 1)\<close>
  and can be \<open>0\<close>. \<^verbatim>\<open>random.uniform(a, b)\<close> is \<^verbatim>\<open>a + (b - a) * random()\<close>.
  \<^verbatim>\<open>randbelow(n)\<close> is some integer in \<open>[0, n)\<close>; \<^verbatim>\<open>random.randint(a, b)\<close> is
  \<^verbatim>\<open>a + randbelow(b - a + 1)\<close> and \<^verbatim>\<open>random.choice(seq)\<close> is \<^verbatim>\<open>seq[randbelow(len(seq))]\<close>.
  The service calls the last two with constant arguments only (\<open>a \<le> b\<close>, a non-empty
  sequence), so their \<^verbatim>\<open>ValueError\<close> and \<^verbatim>\<open>IndexError\<close> cannot arise.
\<close>

definition next_raw :: "world \<Rightarrow> nat \<times> world" where
  "next_raw w = (gen w 0, w\<lparr>gen := (\<lambda>i. gen w (Suc i))\<rparr>)"

definition random_random :: "world \<Rightarrow> real \<times> world" where
  "random_random w = (case next_raw w of (k, w') \<Rightarrow> (real (k mod 2 ^ 53) / 2 ^ 53, w'))"

definition random_uniform :: "real \<Rightarrow> real \<Rightarrow> world \<Rightarrow> real \<times> world" where
  "random_uniform a b w = (case random_random w of (u, w') \<Rightarrow> (a + (b - a) * u, w'))"

definition randbelow :: "nat \<Rightarrow> world \<Rightarrow> nat \<times> world" where
  "randbelow n w = (case next_raw w of (k, w') \<Rightarrow> (k mod n, w'))"

definition random_randint :: "int \<Rightarrow> int \<Rightarrow> world \<Rightarrow> int \<times> world" where
  "random_randint a b w =
     (case randbelow (nat (b - a + 1)) w of (k, w') \<Rightarrow> (a + int k, w'))"

definition random_choice :: "'a list \<Rightarrow> world \<Rightarrow> 'a \<times> world" where
  "random_choice seq w = (case randbelow (length seq) w of (k, w') \<Rightarrow> (seq ! k, w'))"

definition time_sleep :: "real \<Rightarrow> world \<Rightarrow> world" where
  "time_sleep d w = w\<lparr>clock := clock w + d, delays := delays w @ [d]\<rparr>"

definition time_time :: "world \<Rightarrow> real" where
  "time_time w = clock w"

text \<open>
  \<^verbatim>\<open>round(x, n)\<close> on a float: to the nearest multiple of \<open>10^(-n)\<close>, a tie going to the
  even one.
\<close>

definition round_half_even :: "real \<Rightarrow> int" where
  "round_half_even y =
     (let f = \<lfloor>y\<rfloor>; d = y - of_int f
      in if d < 1 / 2 then f
         else if 1 / 2 < d then f + 1
         else if even f then f else f + 1)"

definition py_round :: "real \<Rightarrow> nat \<Rightarrow> real" where
  "py_round x n = of_int (round_half_even (x * 10 ^ n)) / 10 ^ n"

section \<open>The scoring engine: class \<^verbatim>\<open>ResidueAnalyzer\<close>\<close>

text \<open>
  The instance attribute \<^verbatim>\<open>entropy_threshold\<close> is set in \<^verbatim>\<open>__init__\<close> and never read, so
  the methods are functions of their other arguments and the process state.
\<close>

definition calculate_entropy :: "json \<Rightarrow> world \<Rightarrow> (exn + real) \<times> world" where
  "calculate_entropy device_id w =
     (case random_uniform 95.0 100.0 w of (base_entropy, w1) \<Rightarrow>
        (case hash_py w1 device_id of
           Inl e \<Rightarrow> (Inl e, w1)
         | Inr h \<Rightarrow>
             (let device_factor = real_of_int (h mod 100) / 100.0;
                  entropy = min 100.0 (base_entropy + device_factor)
              in (Inr (py_round entropy 2), w1))))"

definition detect_recoverable_files :: "real \<Rightarrow> world \<Rightarrow> int \<times> world" where
  "detect_recoverable_files entropy_score w =
     (if entropy_score \<ge> 99.8 then (0, w)
      else if entropy_score \<ge> 99.0 then random_randint 0 2 w
      else if entropy_score \<ge> 95.0 then random_randint 2 10 w
      else random_randint 10 50 w)"

definition determine_residue_status :: "real \<Rightarrow> int \<Rightarrow> string" where
  "determine_residue_status entropy_score recoverable_files =
     (if entropy_score \<ge> 99.8 \<and> recoverable_files = 0 then ''CLEAN''
      else if entropy_score \<ge> 99.0 \<and> recoverable_files \<le> 2 then ''MOSTLY_CLEAN''
      else if entropy_score \<ge> 95.0 then ''SOME_RESIDUE''
      else ''HIGH_RESIDUE'')"

definition analyze_device :: "json \<Rightarrow> json \<Rightarrow> world \<Rightarrow> (exn + json) \<times> world" where
  "analyze_device job_id device_id w0 =
     (case random_uniform 2 5 w0 of (d, w1) \<Rightarrow>
      (case calculate_entropy device_id (time_sleep d w1) of (r, w3) \<Rightarrow>
       (case r of
          Inl e \<Rightarrow> (Inl e, w3)
        | Inr entropy_score \<Rightarrow>
           (case detect_recoverable_files entropy_score w3 of (recoverable_files, w4) \<Rightarrow>
            (let residue_status = determine_residue_status entropy_score recoverable_files in
             (case random_randint 1000000 5000000 w4 of (sectors_analyzed, w5) \<Rightarrow>
              (case random_randint 0 100 w5 of (data_patterns_found, w6) \<Rightarrow>
               (case random_choice [True, False] w6 of (encryption_residue, w7) \<Rightarrow>
                (case random_randint 0 50 w7 of (metadata_traces, w8) \<Rightarrow>
                 (case random_randint 0 20 w8 of (file_signature_remnants, w9) \<Rightarrow>
                  (let analysis_details = JObj
                         [(''sectors_analyzed'', JInt sectors_analyzed),
                          (''data_patterns_found'', JInt data_patterns_found),
                          (''encryption_residue'', JBool encryption_residue),
                          (''metadata_traces'', JInt metadata_traces),
                          (''file_signature_remnants'', JInt file_signature_remnants)];
                       timestamp = time_time w9
                   in (case random_uniform 95.0 99.9 w9 of (confidence_level, w10) \<Rightarrow>
                        (Inr (JObj
                           [(''job_id'', job_id),
                            (''device_id'', device_id),
                            (''entropy_score'', JFloat entropy_score),
                            (''recoverable_files'', JInt recoverable_files),
                            (''residue_status'', JStr residue_status),
                            (''analysis_details'', analysis_details),
                            (''timestamp'', JFloat timestamp),
                            (''confidence_level'', JFloat confidence_level)]),
                         w10)))))))))))))"

section \<open>The request handlers\<close>

text \<open>
  A handler takes what \<^verbatim>\<open>request.get_json()\<close> gives (the decoded body, or the exception
  it raises on a body that is not JSON) and the process state, and returns the response
  (body and status code) with the new state. \<^verbatim>\<open>jsonify(d)\<close> alone is the body \<open>d\<close> with
  status 200. Each \<^verbatim>\<open>try\<close> block is a function of its own whose result is either the
  exception raised in it or its response; the handler maps an exception to the response of
  the \<^verbatim>\<open>except Exception\<close> clause.
\<close>

type_synonym response = "json \<times> nat"

definition health_check :: response where
  "health_check =
     (JObj [(''status'', JStr ''healthy''),
            (''service'', JStr ''WipeSure AI Residue Analyzer''),
            (''version'', JStr ''1.0.0'')], 200)"

definition analyze_residue_try :: "exn + json \<Rightarrow> world \<Rightarrow> (exn + response) \<times> world" where
  "analyze_residue_try get_json w =
     (case get_json of
        Inl e \<Rightarrow> (Inl e, w)
      | Inr data \<Rightarrow>
         (case py_get data ''job_id'' JNull of
            Inl e \<Rightarrow> (Inl e, w)
          | Inr job_id \<Rightarrow>
             (case py_get data ''device_id'' JNull of
                Inl e \<Rightarrow> (Inl e, w)
              | Inr device_id \<Rightarrow>
                 if \<not> truthy job_id \<or> \<not> truthy device_id then
                   (Inr (JObj [(''error'',
                           JStr ''Missing required parameters: job_id and device_id'')], 400), w)
                 else
                   (case analyze_device job_id device_id w of (r, w') \<Rightarrow>
                     (case r of
                        Inl e \<Rightarrow> (Inl e, w')
                      | Inr result \<Rightarrow> (Inr (result, 200), w'))))))"

definition analyze_residue :: "exn + json \<Rightarrow> world \<Rightarrow> response \<times> world" where
  "analyze_residue get_json w =
     (case analyze_residue_try get_json w of (r, w') \<Rightarrow>
       (case r of
          Inr resp \<Rightarrow> (resp, w')
        | Inl e \<Rightarrow>
           ((JObj [(''error'', JStr (''Analysis failed: '' @ str_exn e)),
                   (''entropy_score'', JFloat 0.0),
                   (''recoverable_files'', JInt 999),
                   (''residue_status'', JStr ''ERROR'')], 500), w')))"

definition quick_scan_try :: "exn + json \<Rightarrow> world \<Rightarrow> (exn + response) \<times> world" where
  "quick_scan_try get_json w =
     (case get_json of
        Inl e \<Rightarrow> (Inl e, w)
      | Inr data \<Rightarrow>
         (case py_get data ''device_id'' (JStr ''unknown'') of
            Inl e \<Rightarrow> (Inl e, w)
          | Inr device_id \<Rightarrow>
             (case calculate_entropy device_id w of (r, w1) \<Rightarrow>
               (case r of
                  Inl e \<Rightarrow> (Inl e, w1)
                | Inr entropy \<Rightarrow>
                   (case detect_recoverable_files entropy w1 of (recoverable, w2) \<Rightarrow>
                     (let status = determine_residue_status entropy recoverable
                      in (Inr (JObj [(''entropy_score'', JFloat entropy),
                                     (''recoverable_files'', JInt recoverable),
                                     (''residue_status'', JStr status),
                                     (''scan_progress'', JInt 100),
                                     (''estimated_time'', JInt 0)], 200), w2)))))))"

definition quick_scan :: "exn + json \<Rightarrow> world \<Rightarrow> response \<times> world" where
  "quick_scan get_json w =
     (case quick_scan_try get_json w of (r, w') \<Rightarrow>
       (case r of
          Inr resp \<Rightarrow> (resp, w')
        | Inl e \<Rightarrow> ((JObj [(''error'', JStr (''Quick scan failed: '' @ str_exn e))], 500), w')))"

text \<open>The loop of \<^verbatim>\<open>get_data_patterns\<close> over \<^verbatim>\<open>range(360)\<close>, appending to \<^verbatim>\<open>patterns\<close>.\<close>

fun patterns_loop :: "nat list \<Rightarrow> json list \<Rightarrow> world \<Rightarrow> json list \<times> world" where
  "patterns_loop [] patterns w = (patterns, w)"
| "patterns_loop (i # rest) patterns w =
     (let angle = i in
      (case random_uniform 0.1 1.0 w of (distance, w1) \<Rightarrow>
       (case random_uniform 0 100 w1 of (intensity, w2) \<Rightarrow>
        (case random_choice [''deleted_file'', ''metadata'', ''free_space'', ''encrypted''] w2
         of (pattern_type, w3) \<Rightarrow>
           patterns_loop rest
             (patterns @ [JObj [(''angle'', JInt (int angle)),
                                (''distance'', JFloat distance),
                                (''intensity'', JFloat intensity),
                                (''pattern_type'', JStr pattern_type)]]) w3))))"

definition get_data_patterns :: "world \<Rightarrow> response \<times> world" where
  "get_data_patterns w =
     (case patterns_loop [0..<360] [] w of (patterns, w') \<Rightarrow>
       ((JObj [(''patterns'', JArr patterns),
               (''scan_radius'', JFloat 1.0),
               (''total_points'', JInt (int (length patterns)))], 200), w'))"

section \<open>Sample process states\<close>

text \<open>A process whose hash is constantly 0 and whose generator gives only the raw output 0.\<close>

definition world_zero :: world where
  "world_zero = \<lparr>py_hash = (\<lambda>_. 0), gen = (\<lambda>_. 0), clock = 0, delays = []\<rparr>"

text \<open>
  A process whose hash is constantly 99 and whose generator gives only the raw output
  \<open>7 * 2^50\<close>, so that \<^verbatim>\<open>random.random()\<close> is \<open>7/8\<close>.
\<close>

definition world_high :: world where
  "world_high = \<lparr>py_hash = (\<lambda>_. 99), gen = (\<lambda>_. 7 * 2 ^ 50), clock = 0, delays = []\<rparr>"

section \<open>The library calls stay in their ranges\<close>

lemma random_random_range: "0 \<le> fst (random_random w) \<and> fst (random_random w) < 1"
  by (simp add: random_random_def next_raw_def)

lemma random_uniform_range:
  assumes "a \<le> b"
  shows "a \<le> fst (random_uniform a b w) \<and> fst (random_uniform a b w) \<le> b"
proof -
  obtain u w' where u: "random_random w = (u, w')" by (cases "random_random w")
  with random_random_range [of w] have r: "0 \<le> u" "u < 1" by simp_all
  have "(b - a) * u \<le> (b - a) * 1"
    using assms r by (intro mult_left_mono) simp_all
  moreover have "0 \<le> (b - a) * u" using assms r by simp
  ultimately show ?thesis by (simp add: random_uniform_def u)
qed

lemma random_uniform_less:
  assumes "a < b"
  shows "fst (random_uniform a b w) < b"
proof -
  obtain u w' where u: "random_random w = (u, w')" by (cases "random_random w")
  with random_random_range [of w] have r: "0 \<le> u" "u < 1" by simp_all
  have "(b - a) * u < (b - a) * 1"
    using assms r by (intro mult_strict_left_mono) simp_all
  then show ?thesis by (simp add: random_uniform_def u)
qed

lemma randbelow_range: "0 < n \<Longrightarrow> fst (randbelow n w) < n"
  by (simp add: randbelow_def next_raw_def)

lemma random_randint_range:
  assumes "a \<le> b"
  shows "a \<le> fst (random_randint a b w) \<and> fst (random_randint a b w) \<le> b"
proof -
  obtain k w' where k: "randbelow (nat (b - a + 1)) w = (k, w')"
    by (cases "randbelow (nat (b - a + 1)) w")
  from assms have "0 < nat (b - a + 1)" by simp
  from randbelow_range [OF this, of w] k have "k < nat (b - a + 1)" by simp
  with assms have "int k \<le> b - a" by linarith
  then show ?thesis by (simp add: random_randint_def k)
qed

lemma random_choice_mem: "seq \<noteq> [] \<Longrightarrow> fst (random_choice seq w) \<in> set seq"
  by (simp add: random_choice_def randbelow_def next_raw_def)

text \<open>The library calls draw from the generator and touch nothing else.\<close>

lemma next_raw_frame:
  "py_hash (snd (next_raw w)) = py_hash w \<and> clock (snd (next_raw w)) = clock w
   \<and> delays (snd (next_raw w)) = delays w"
  by (simp add: next_raw_def)

lemma random_uniform_frame:
  "py_hash (snd (random_uniform a b w)) = py_hash w \<and> clock (snd (random_uniform a b w)) = clock w
   \<and> delays (snd (random_uniform a b w)) = delays w"
  by (simp add: random_uniform_def random_random_def next_raw_def)

lemma random_randint_frame:
  "py_hash (snd (random_randint a b w)) = py_hash w \<and> clock (snd (random_randint a b w)) = clock w
   \<and> delays (snd (random_randint a b w)) = delays w"
  by (simp add: random_randint_def randbelow_def next_raw_def)

lemma random_choice_frame:
  "py_hash (snd (random_choice seq w)) = py_hash w \<and> clock (snd (random_choice seq w)) = clock w
   \<and> delays (snd (random_choice seq w)) = delays w"
  by (simp add: random_choice_def randbelow_def next_raw_def)

subsection \<open>Rounding\<close>

lemma round_half_even_ge:
  assumes "of_int m \<le> y"
  shows "m \<le> round_half_even y"
proof -
  from assms have "m \<le> \<lfloor>y\<rfloor>" by (simp add: le_floor_iff)
  then show ?thesis by (simp add: round_half_even_def Let_def)
qed

lemma round_half_even_le:
  assumes "y \<le> of_int n"
  shows "round_half_even y \<le> n"
proof (cases "y = of_int n")
  case True
  then show ?thesis by (simp add: round_half_even_def)
next
  case False
  with assms have "y < of_int n" by simp
  then have "\<lfloor>y\<rfloor> < n" by (simp add: floor_less_iff)
  then show ?thesis by (simp add: round_half_even_def Let_def)
qed

lemma py_round_2_range:
  assumes "95 \<le> x" "x \<le> 100"
  shows "95 \<le> py_round x 2 \<and> py_round x 2 \<le> 100"
proof -
  have "of_int 9500 \<le> x * 10 ^ 2" "x * 10 ^ 2 \<le> of_int 10000" using assms by simp_all
  then have "9500 \<le> round_half_even (x * 10 ^ 2)" "round_half_even (x * 10 ^ 2) \<le> 10000"
    by (simp_all only: round_half_even_ge round_half_even_le)
  then have "(9500::real) \<le> of_int (round_half_even (x * 10 ^ 2))"
    "of_int (round_half_even (x * 10 ^ 2)) \<le> (10000::real)" by linarith+
  then show ?thesis by (simp add: py_round_def)
qed

lemma py_round_2_hundredths: "\<exists>k::int. py_round x 2 * 100 = of_int k"
  by (simp add: py_round_def)

text \<open>Rounding to two places moves a value by at most half a hundredth.\<close>

lemma round_half_even_near: "\<bar>of_int (round_half_even y) - y\<bar> \<le> 1 / 2"
  unfolding round_half_even_def Let_def
  by (auto simp: abs_le_iff)

section \<open>The scoring engine\<close>

text \<open>
  C1. \<^verbatim>\<open>determine_residue_status\<close> tests its branches in order and the first that holds
  decides: \<^verbatim>\<open>CLEAN\<close> exactly when entropy is at least 99.8 and nothing is recoverable;
  failing that, \<^verbatim>\<open>MOSTLY_CLEAN\<close> exactly when entropy is at least 99.0 with at most 2
  recoverable; failing that, \<^verbatim>\<open>SOME_RESIDUE\<close> exactly when entropy is at least 95.0;
  \<^verbatim>\<open>HIGH_RESIDUE\<close> otherwise. So entropy at least 99.0 with more than 2 recoverable is
  \<^verbatim>\<open>SOME_RESIDUE\<close> (as at 99.5 with 5), and 99.5 with 1 is \<^verbatim>\<open>MOSTLY_CLEAN\<close>.
\<close>

theorem determine_residue_status_first_match:
  "(determine_residue_status e r = ''CLEAN'' \<longleftrightarrow> e \<ge> 99.8 \<and> r = 0)
   \<and> (determine_residue_status e r = ''MOSTLY_CLEAN'' \<longleftrightarrow>
        \<not> (e \<ge> 99.8 \<and> r = 0) \<and> e \<ge> 99.0 \<and> r \<le> 2)
   \<and> (determine_residue_status e r = ''SOME_RESIDUE'' \<longleftrightarrow>
        \<not> (e \<ge> 99.8 \<and> r = 0) \<and> \<not> (e \<ge> 99.0 \<and> r \<le> 2) \<and> e \<ge> 95.0)
   \<and> (determine_residue_status e r = ''HIGH_RESIDUE'' \<longleftrightarrow>
        \<not> (e \<ge> 99.8 \<and> r = 0) \<and> \<not> (e \<ge> 99.0 \<and> r \<le> 2) \<and> \<not> e \<ge> 95.0)
   \<and> (e \<ge> 99.0 \<and> r > 2 \<longrightarrow> determine_residue_status e r = ''SOME_RESIDUE'')
   \<and> determine_residue_status 99.5 5 = ''SOME_RESIDUE''
   \<and> determine_residue_status 99.5 1 = ''MOSTLY_CLEAN''"
  by (simp add: determine_residue_status_def)

theorem determine_residue_status_first_match_witness:
  "(99.9::real) \<ge> 99.0 \<and> (5::int) > 2 \<and> determine_residue_status 99.9 5 = ''SOME_RESIDUE''
   \<and> determine_residue_status 99.9 5 \<noteq> ''MOSTLY_CLEAN''"
  using determine_residue_status_first_match [of "99.9" 5] by simp

text \<open>
  C2. \<^verbatim>\<open>detect_recoverable_files\<close> is piecewise in the entropy: exactly 0 from 99.8 up, an
  integer in \<open>[0, 2]\<close> on \<open>[99.0, 99.8)\<close>, in \<open>[2, 10]\<close> on \<open>[95.0, 99.0)\<close>, and in
  \<open>[10, 50]\<close> below 95.0, whatever the generator gives.
\<close>

theorem detect_recoverable_files_piecewise:
  "(e \<ge> 99.8 \<longrightarrow> fst (detect_recoverable_files e w) = 0)
   \<and> (99.0 \<le> e \<and> e < 99.8 \<longrightarrow>
        0 \<le> fst (detect_recoverable_files e w) \<and> fst (detect_recoverable_files e w) \<le> 2)
   \<and> (95.0 \<le> e \<and> e < 99.0 \<longrightarrow>
        2 \<le> fst (detect_recoverable_files e w) \<and> fst (detect_recoverable_files e w) \<le> 10)
   \<and> (e < 95.0 \<longrightarrow>
        10 \<le> fst (detect_recoverable_files e w) \<and> fst (detect_recoverable_files e w) \<le> 50)"
  using random_randint_range [of 0 2 w] random_randint_range [of 2 10 w]
    random_randint_range [of 10 50 w]
  by (simp add: detect_recoverable_files_def)

theorem detect_recoverable_files_piecewise_witness:
  "(99.9::real) \<ge> 99.8 \<and> fst (detect_recoverable_files 99.9 world_zero) = 0
   \<and> (99.0::real) \<le> 99.5 \<and> (99.5::real) < 99.8 \<and> fst (detect_recoverable_files 99.5 world_zero) = 0
   \<and> (95.0::real) \<le> 97 \<and> (97::real) < 99.0 \<and> fst (detect_recoverable_files 97 world_zero) = 2
   \<and> (90::real) < 95.0 \<and> fst (detect_recoverable_files 90 world_zero) = 10"
  using detect_recoverable_files_piecewise [of "99.9" world_zero]
  by (simp add: detect_recoverable_files_def random_randint_def randbelow_def next_raw_def world_zero_def)

section \<open>The composed scoring pipeline\<close>

lemma calculate_entropy_Inr:
  assumes "calculate_entropy d w = (Inr x, w')"
  shows "95 \<le> x \<and> x \<le> 100"
proof -
  obtain b w1 where b: "random_uniform 95.0 100.0 w = (b, w1)"
    by (cases "random_uniform 95.0 100.0 w")
  from random_uniform_range [of "95.0" "100.0" w] b have br: "95 \<le> b" "b \<le> 100" by simp_all
  from assms b obtain h where h: "hash_py w1 d = Inr h"
    and x: "x = py_round (min 100 (b + real_of_int (h mod 100) / 100)) 2"
    by (auto simp: calculate_entropy_def Let_def split: sum.splits)
  have "0 \<le> h mod 100" by simp
  then have "0 \<le> real_of_int (h mod 100) / 100" by simp
  with br have "95 \<le> min 100 (b + real_of_int (h mod 100) / 100)" by simp
  moreover have "min 100 (b + real_of_int (h mod 100) / 100) \<le> 100" by simp
  ultimately show ?thesis unfolding x by (rule py_round_2_range)
qed

lemma calculate_entropy_frame:
  "py_hash (snd (calculate_entropy d w)) = py_hash w
   \<and> clock (snd (calculate_entropy d w)) = clock w
   \<and> delays (snd (calculate_entropy d w)) = delays w"
  using random_uniform_frame [of "95.0" "100.0" w]
  by (simp add: calculate_entropy_def case_prod_beta Let_def split: sum.splits)

lemma detect_recoverable_files_frame:
  "py_hash (snd (detect_recoverable_files e w)) = py_hash w
   \<and> clock (snd (detect_recoverable_files e w)) = clock w
   \<and> delays (snd (detect_recoverable_files e w)) = delays w"
  using random_randint_frame [of 0 2 w] random_randint_frame [of 2 10 w]
    random_randint_frame [of 10 50 w]
  by (simp add: detect_recoverable_files_def)

lemma pipeline_status:
  assumes "95 \<le> x"
  shows "determine_residue_status x (fst (detect_recoverable_files x w))
           \<in> {''CLEAN'', ''MOSTLY_CLEAN'', ''SOME_RESIDUE''}"
  using assms by (simp add: determine_residue_status_def)

lemma pipeline_clean_iff:
  "determine_residue_status x (fst (detect_recoverable_files x w)) = ''CLEAN'' \<longleftrightarrow> x \<ge> 99.8"
  by (simp add: determine_residue_status_def detect_recoverable_files_def)


lemma analyze_device_Inr:
  assumes "analyze_device j d w = (Inr r, w')"
  shows "\<exists>x w1 w2. calculate_entropy d w1 = (Inr x, w2)
           \<and> field ''job_id'' r = Some j
           \<and> field ''device_id'' r = Some d
           \<and> field ''entropy_score'' r = Some (JFloat x)
           \<and> field ''recoverable_files'' r = Some (JInt (fst (detect_recoverable_files x w2)))
           \<and> field ''residue_status'' r =
               Some (JStr (determine_residue_status x (fst (detect_recoverable_files x w2))))"
proof -
  obtain dl w1 where 1: "random_uniform 2 5 w = (dl, w1)"
    by (cases "random_uniform 2 5 w")
  obtain c w3 where 2: "calculate_entropy d (time_sleep dl w1) = (c, w3)"
    by (cases "calculate_entropy d (time_sleep dl w1)")
  from assms 1 2 obtain x where x: "c = Inr x"
    by (cases c) (simp_all add: analyze_device_def)
  obtain rf w4 where 3: "detect_recoverable_files x w3 = (rf, w4)"
    by (cases "detect_recoverable_files x w3")
  obtain a5 w5 where 4: "random_randint 1000000 5000000 w4 = (a5, w5)"
    by (cases "random_randint 1000000 5000000 w4")
  obtain a6 w6 where 5: "random_randint 0 100 w5 = (a6, w6)"
    by (cases "random_randint 0 100 w5")
  obtain a7 w7 where 6: "random_choice [True, False] w6 = (a7, w7)"
    by (cases "random_choice [True, False] w6")
  obtain a8 w8 where 7: "random_randint 0 50 w7 = (a8, w8)"
    by (cases "random_randint 0 50 w7")
  obtain a9 w9 where 8: "random_randint 0 20 w8 = (a9, w9)"
    by (cases "random_randint 0 20 w8")
  obtain a10 w10 where 9: "random_uniform 95.0 99.9 w9 = (a10, w10)"
    by (cases "random_uniform 95.0 99.9 w9")
  from assms have r: "r = JObj [(''job_id'', j), (''device_id'', d), (''entropy_score'', JFloat x),
       (''recoverable_files'', JInt rf),
       (''residue_status'', JStr (determine_residue_status x rf)),
       (''analysis_details'', JObj
                         [(''sectors_analyzed'', JInt a5),
                          (''data_patterns_found'', JInt a6),
                          (''encryption_residue'', JBool a7),
                          (''metadata_traces'', JInt a8),
                          (''file_signature_remnants'', JInt a9)]),
       (''timestamp'', JFloat (time_time w9)),
       (''confidence_level'', JFloat a10)]"
    unfolding analyze_device_def Let_def 1 2 x 3 4 5 6 7 8 9 prod.case sum.case by simp
  have "calculate_entropy d (time_sleep dl w1) = (Inr x, w3)
           \<and> field ''job_id'' r = Some j
           \<and> field ''device_id'' r = Some d
           \<and> field ''entropy_score'' r = Some (JFloat x)
           \<and> field ''recoverable_files'' r = Some (JInt (fst (detect_recoverable_files x w3)))
           \<and> field ''residue_status'' r =
               Some (JStr (determine_residue_status x (fst (detect_recoverable_files x w3))))"
    unfolding r using 2 x 3 by simp
  then show ?thesis by blast
qed

lemma analyze_residue_200:
  assumes "analyze_residue rq w = ((body, 200), w')"
  shows "\<exists>j d. analyze_device j d w = (Inr body, w')"
  using assms
  by (auto simp: analyze_residue_def analyze_residue_try_def
      split: sum.splits prod.splits if_splits)

lemma quick_scan_200:
  assumes "quick_scan rq w = ((body, 200), w')"
  shows "\<exists>d x w1. calculate_entropy d w = (Inr x, w1)
    \<and> w' = snd (detect_recoverable_files x w1)
    \<and> body = JObj [(''entropy_score'', JFloat x),
         (''recoverable_files'', JInt (fst (detect_recoverable_files x w1))),
         (''residue_status'',
            JStr (determine_residue_status x (fst (detect_recoverable_files x w1)))),
         (''scan_progress'', JInt 100),
         (''estimated_time'', JInt 0)]"
  using assms
  by (auto simp: quick_scan_def quick_scan_try_def Let_def
      split: sum.splits prod.splits if_splits) (metis fst_conv snd_conv)

lemma scored_analyze:
  assumes "analyze_residue rq w = ((body, 200), w')"
  shows "\<exists>x w2. 95 \<le> x \<and> x \<le> 100
    \<and> field ''entropy_score'' body = Some (JFloat x)
    \<and> field ''recoverable_files'' body = Some (JInt (fst (detect_recoverable_files x w2)))
    \<and> field ''residue_status'' body =
         Some (JStr (determine_residue_status x (fst (detect_recoverable_files x w2))))"
proof -
  from analyze_residue_200 [OF assms] obtain j d where "analyze_device j d w = (Inr body, w')"
    by blast
  from analyze_device_Inr [OF this] obtain x w1 w2 where
    c: "calculate_entropy d w1 = (Inr x, w2)"
    and f: "field ''entropy_score'' body = Some (JFloat x)"
      "field ''recoverable_files'' body = Some (JInt (fst (detect_recoverable_files x w2)))"
      "field ''residue_status'' body =
         Some (JStr (determine_residue_status x (fst (detect_recoverable_files x w2))))"
    by blast
  from calculate_entropy_Inr [OF c] f show ?thesis by blast
qed

lemma scored_quick_scan:
  assumes "quick_scan rq w = ((body, 200), w')"
  shows "\<exists>x w2. 95 \<le> x \<and> x \<le> 100
    \<and> field ''entropy_score'' body = Some (JFloat x)
    \<and> field ''recoverable_files'' body = Some (JInt (fst (detect_recoverable_files x w2)))
    \<and> field ''residue_status'' body =
         Some (JStr (determine_residue_status x (fst (detect_recoverable_files x w2))))"
proof -
  from quick_scan_200 [OF assms] obtain d x w1 where
    c: "calculate_entropy d w = (Inr x, w1)"
    and b: "body = JObj [(''entropy_score'', JFloat x),
         (''recoverable_files'', JInt (fst (detect_recoverable_files x w1))),
         (''residue_status'',
            JStr (determine_residue_status x (fst (detect_recoverable_files x w1)))),
         (''scan_progress'', JInt 100),
         (''estimated_time'', JInt 0)]"
    by blast
  have "field ''entropy_score'' body = Some (JFloat x)
    \<and> field ''recoverable_files'' body = Some (JInt (fst (detect_recoverable_files x w1)))
    \<and> field ''residue_status'' body =
         Some (JStr (determine_residue_status x (fst (detect_recoverable_files x w1))))"
    unfolding b by simp
  with calculate_entropy_Inr [OF c] show ?thesis by blast
qed

text \<open>A string is hashable, so on a string identifier \<^verbatim>\<open>calculate_entropy\<close> returns.\<close>

lemma calculate_entropy_str_returns: "\<exists>x w'. calculate_entropy (JStr s) w = (Inr x, w')"
  by (simp add: calculate_entropy_def case_prod_beta Let_def)

text \<open>
  C4. In every result of \<^verbatim>\<open>analyze_device\<close> and in every 200 response of the quick scan,
  the three fields agree: \<^verbatim>\<open>residue_status\<close> is what \<^verbatim>\<open>determine_residue_status\<close> gives
  on the \<^verbatim>\<open>entropy_score\<close> and \<^verbatim>\<open>recoverable_files\<close> of the same result, for every job
  and device identifier.
\<close>

theorem result_fields_consistent:
  "(analyze_device j d w = (Inr r, w') \<longrightarrow>
      (\<exists>e n. field ''entropy_score'' r = Some (JFloat e)
         \<and> field ''recoverable_files'' r = Some (JInt n)
         \<and> field ''residue_status'' r = Some (JStr (determine_residue_status e n))))
   \<and> (quick_scan rq w = ((body, 200), w'') \<longrightarrow>
      (\<exists>e n. field ''entropy_score'' body = Some (JFloat e)
         \<and> field ''recoverable_files'' body = Some (JInt n)
         \<and> field ''residue_status'' body = Some (JStr (determine_residue_status e n))))"
proof (intro conjI impI)
  assume "analyze_device j d w = (Inr r, w')"
  from analyze_device_Inr [OF this] show
    "\<exists>e n. field ''entropy_score'' r = Some (JFloat e)
         \<and> field ''recoverable_files'' r = Some (JInt n)
         \<and> field ''residue_status'' r = Some (JStr (determine_residue_status e n))"
    by blast
next
  assume "quick_scan rq w = ((body, 200), w'')"
  from scored_quick_scan [OF this] show
    "\<exists>e n. field ''entropy_score'' body = Some (JFloat e)
         \<and> field ''recoverable_files'' body = Some (JInt n)
         \<and> field ''residue_status'' body = Some (JStr (determine_residue_status e n))"
    by blast
qed


subsection \<open>The sample states, evaluated\<close>

lemma next_raw_world_zero: "next_raw world_zero = (0, world_zero)"
  by (simp add: next_raw_def world_zero_def)

lemma next_raw_world_high: "next_raw world_high = (7 * 2 ^ 50, world_high)"
  by (simp add: next_raw_def world_high_def)

lemma py_round_2_95: "py_round 95 2 = 95"
  by (simp add: py_round_def round_half_even_def)

lemma py_round_2_100: "py_round 100 2 = 100"
  by (simp add: py_round_def round_half_even_def)

lemma calculate_entropy_world_zero:
  "calculate_entropy (JStr s) world_zero = (Inr 95, world_zero)"
  by (simp add: calculate_entropy_def random_uniform_def random_random_def next_raw_world_zero
      py_round_2_95) (simp add: world_zero_def py_round_2_95)

lemma calculate_entropy_world_high:
  "calculate_entropy (JStr s) world_high = (Inr 100, world_high)"
  by (simp add: calculate_entropy_def random_uniform_def random_random_def next_raw_world_high
      py_round_2_100) (simp add: world_high_def py_round_2_100)

lemma detect_world_zero: "detect_recoverable_files 95 world_zero = (2, world_zero)"
  by (simp add: detect_recoverable_files_def random_randint_def randbelow_def next_raw_world_zero)

lemma quick_scan_world_zero:
  "quick_scan (Inr (JObj [])) world_zero =
     ((JObj [(''entropy_score'', JFloat 95), (''recoverable_files'', JInt 2),
             (''residue_status'', JStr ''SOME_RESIDUE''), (''scan_progress'', JInt 100),
             (''estimated_time'', JInt 0)], 200), world_zero)"
  by (simp add: quick_scan_def quick_scan_try_def calculate_entropy_world_zero detect_world_zero
      determine_residue_status_def)

lemma quick_scan_world_high:
  "quick_scan (Inr (JObj [])) world_high =
     ((JObj [(''entropy_score'', JFloat 100), (''recoverable_files'', JInt 0),
             (''residue_status'', JStr ''CLEAN''), (''scan_progress'', JInt 100),
             (''estimated_time'', JInt 0)], 200), world_high)"
  by (simp add: quick_scan_def quick_scan_try_def calculate_entropy_world_high
      detect_recoverable_files_def determine_residue_status_def)


lemma analyze_device_world_zero:
  "analyze_device (JStr ''j1'') (JStr ''d1'') world_zero =
     (Inr (JObj [(''job_id'', JStr ''j1''), (''device_id'', JStr ''d1''),
        (''entropy_score'', JFloat 95), (''recoverable_files'', JInt 2),
        (''residue_status'', JStr ''SOME_RESIDUE''),
        (''analysis_details'', JObj [(''sectors_analyzed'', JInt 1000000),
           (''data_patterns_found'', JInt 0), (''encryption_residue'', JBool True),
           (''metadata_traces'', JInt 0), (''file_signature_remnants'', JInt 0)]),
        (''timestamp'', JFloat 2), (''confidence_level'', JFloat 95)]),
      world_zero\<lparr>clock := 2, delays := [2]\<rparr>)"
  by (simp add: analyze_device_def calculate_entropy_def detect_recoverable_files_def
      determine_residue_status_def random_uniform_def random_random_def random_randint_def
      random_choice_def randbelow_def next_raw_def time_sleep_def time_time_def world_zero_def
      py_round_2_95)

lemma analyze_device_world_high:
  "analyze_device (JStr ''j1'') (JStr ''d1'') world_high =
     (Inr (JObj [(''job_id'', JStr ''j1''), (''device_id'', JStr ''d1''),
        (''entropy_score'', JFloat 100), (''recoverable_files'', JInt 0),
        (''residue_status'', JStr ''CLEAN''),
        (''analysis_details'', JObj [(''sectors_analyzed'', JInt 2574024),
           (''data_patterns_found'', JInt 94), (''encryption_residue'', JBool True),
           (''metadata_traces'', JInt 28), (''file_signature_remnants'', JInt 7)]),
        (''timestamp'', JFloat (37 / 8)), (''confidence_level'', JFloat (7943 / 80))]),
      world_high\<lparr>clock := 37 / 8, delays := [37 / 8]\<rparr>)"
  by (simp add: analyze_device_def calculate_entropy_def detect_recoverable_files_def
      determine_residue_status_def random_uniform_def random_random_def random_randint_def
      random_choice_def randbelow_def next_raw_def time_sleep_def time_time_def world_high_def
      py_round_2_100 numeral_2_eq_2 [symmetric])


lemma analyze_residue_world_zero:
  "analyze_residue (Inr (JObj [(''job_id'', JStr ''j1''), (''device_id'', JStr ''d1'')]))
     world_zero =
     ((JObj [(''job_id'', JStr ''j1''), (''device_id'', JStr ''d1''),
        (''entropy_score'', JFloat 95), (''recoverable_files'', JInt 2),
        (''residue_status'', JStr ''SOME_RESIDUE''),
        (''analysis_details'', JObj [(''sectors_analyzed'', JInt 1000000),
           (''data_patterns_found'', JInt 0), (''encryption_residue'', JBool True),
           (''metadata_traces'', JInt 0), (''file_signature_remnants'', JInt 0)]),
        (''timestamp'', JFloat 2), (''confidence_level'', JFloat 95)], 200),
      world_zero\<lparr>clock := 2, delays := [2]\<rparr>)"
  by (simp add: analyze_residue_def analyze_residue_try_def analyze_device_world_zero)

lemma analyze_residue_world_high:
  "analyze_residue (Inr (JObj [(''job_id'', JStr ''j1''), (''device_id'', JStr ''d1'')]))
     world_high =
     ((JObj [(''job_id'', JStr ''j1''), (''device_id'', JStr ''d1''),
        (''entropy_score'', JFloat 100), (''recoverable_files'', JInt 0),
        (''residue_status'', JStr ''CLEAN''),
        (''analysis_details'', JObj [(''sectors_analyzed'', JInt 2574024),
           (''data_patterns_found'', JInt 94), (''encryption_residue'', JBool True),
           (''metadata_traces'', JInt 28), (''file_signature_remnants'', JInt 7)]),
        (''timestamp'', JFloat (37 / 8)), (''confidence_level'', JFloat (7943 / 80))], 200),
      world_high\<lparr>clock := 37 / 8, delays := [37 / 8]\<rparr>)"
  by (simp add: analyze_residue_def analyze_residue_try_def analyze_device_world_high)

theorem result_fields_consistent_witness:
  "\<exists>r w' body w''.
     analyze_device (JStr ''j1'') (JStr ''d1'') world_zero = (Inr r, w')
     \<and> quick_scan (Inr (JObj [])) world_high = ((body, 200), w'')
     \<and> field ''residue_status'' r = Some (JStr ''SOME_RESIDUE'')
     \<and> field ''residue_status'' body = Some (JStr ''CLEAN'')
     \<and> (\<exists>e n. field ''entropy_score'' r = Some (JFloat e)
         \<and> field ''recoverable_files'' r = Some (JInt n)
         \<and> field ''residue_status'' r = Some (JStr (determine_residue_status e n)))
     \<and> (\<exists>e n. field ''entropy_score'' body = Some (JFloat e)
         \<and> field ''recoverable_files'' body = Some (JInt n)
         \<and> field ''residue_status'' body = Some (JStr (determine_residue_status e n)))"
proof -
  note a = analyze_device_world_zero and q = quick_scan_world_high
  note c1 = result_fields_consistent [THEN conjunct1, rule_format, OF a]
  note c2 = result_fields_consistent [THEN conjunct2, rule_format, OF q]
  have "field ''residue_status'' (JObj [(''entropy_score'', JFloat 100),
      (''recoverable_files'', JInt 0), (''residue_status'', JStr ''CLEAN''),
      (''scan_progress'', JInt 100), (''estimated_time'', JInt 0)]) = Some (JStr ''CLEAN'')"
    by simp
  moreover have "field ''residue_status'' (JObj [(''job_id'', JStr ''j1''),
        (''device_id'', JStr ''d1''),
        (''entropy_score'', JFloat 95), (''recoverable_files'', JInt 2),
        (''residue_status'', JStr ''SOME_RESIDUE''),
        (''analysis_details'', JObj [(''sectors_analyzed'', JInt 1000000),
           (''data_patterns_found'', JInt 0), (''encryption_residue'', JBool True),
           (''metadata_traces'', JInt 0), (''file_signature_remnants'', JInt 0)]),
        (''timestamp'', JFloat 2), (''confidence_level'', JFloat 95)])
      = Some (JStr ''SOME_RESIDUE'')"
    by simp
  ultimately show ?thesis using a q c1 c2 by blast
qed

text \<open>
  C9. Whenever \<^verbatim>\<open>calculate_entropy\<close> returns, its value is at least 95.0. So in the
  pipeline the last branch of \<^verbatim>\<open>detect_recoverable_files\<close> (the range \<open>[10, 50]\<close>) is
  never taken and the status is never \<^verbatim>\<open>HIGH_RESIDUE\<close>: every 200 response of
  \<^verbatim>\<open>/analyze\<close> and of \<^verbatim>\<open>/quick-scan\<close> has \<^verbatim>\<open>residue_status\<close> among \<^verbatim>\<open>CLEAN\<close>,
  \<^verbatim>\<open>MOSTLY_CLEAN\<close> and \<^verbatim>\<open>SOME_RESIDUE\<close>.
\<close>

theorem high_residue_unreachable:
  "(calculate_entropy d w = (Inr x, w1) \<longrightarrow>
      95 \<le> x
      \<and> detect_recoverable_files x w1 =
          (if x \<ge> 99.8 then (0, w1)
           else if x \<ge> 99.0 then random_randint 0 2 w1
           else random_randint 2 10 w1)
      \<and> determine_residue_status x (fst (detect_recoverable_files x w1))
          \<in> {''CLEAN'', ''MOSTLY_CLEAN'', ''SOME_RESIDUE''})
   \<and> (analyze_residue rq w = ((body, 200), w') \<longrightarrow>
        field ''residue_status'' body
          \<in> {Some (JStr ''CLEAN''), Some (JStr ''MOSTLY_CLEAN''), Some (JStr ''SOME_RESIDUE'')})
   \<and> (quick_scan rq' w = ((body', 200), w'') \<longrightarrow>
        field ''residue_status'' body'
          \<in> {Some (JStr ''CLEAN''), Some (JStr ''MOSTLY_CLEAN''), Some (JStr ''SOME_RESIDUE'')})"
proof (intro conjI impI)
  assume c: "calculate_entropy d w = (Inr x, w1)"
  from calculate_entropy_Inr [OF c] show x: "95 \<le> x" by simp
  from x show "detect_recoverable_files x w1 =
          (if x \<ge> 99.8 then (0, w1)
           else if x \<ge> 99.0 then random_randint 0 2 w1
           else random_randint 2 10 w1)"
    by (simp add: detect_recoverable_files_def)
  from x show "determine_residue_status x (fst (detect_recoverable_files x w1))
          \<in> {''CLEAN'', ''MOSTLY_CLEAN'', ''SOME_RESIDUE''}"
    by (rule pipeline_status)
next
  assume "analyze_residue rq w = ((body, 200), w')"
  from scored_analyze [OF this] obtain x w2 where x: "95 \<le> x"
    and f: "field ''residue_status'' body =
         Some (JStr (determine_residue_status x (fst (detect_recoverable_files x w2))))"
    by blast
  from pipeline_status [OF x, of w2] show "field ''residue_status'' body
          \<in> {Some (JStr ''CLEAN''), Some (JStr ''MOSTLY_CLEAN''), Some (JStr ''SOME_RESIDUE'')}"
    unfolding f by blast
next
  assume "quick_scan rq' w = ((body', 200), w'')"
  from scored_quick_scan [OF this] obtain x w2 where x: "95 \<le> x"
    and f: "field ''residue_status'' body' =
         Some (JStr (determine_residue_status x (fst (detect_recoverable_files x w2))))"
    by blast
  from pipeline_status [OF x, of w2] show "field ''residue_status'' body'
          \<in> {Some (JStr ''CLEAN''), Some (JStr ''MOSTLY_CLEAN''), Some (JStr ''SOME_RESIDUE'')}"
    unfolding f by blast
qed

theorem high_residue_unreachable_witness:
  "\<exists>x w1 body w' body' w''.
     calculate_entropy (JStr ''d1'') world_zero = (Inr x, w1)
     \<and> analyze_residue (Inr (JObj [(''job_id'', JStr ''j1''), (''device_id'', JStr ''d1'')]))
          world_zero = ((body, 200), w')
     \<and> quick_scan (Inr (JObj [])) world_zero = ((body', 200), w'')
     \<and> 95 \<le> x
     \<and> determine_residue_status x (fst (detect_recoverable_files x w1))
          \<in> {''CLEAN'', ''MOSTLY_CLEAN'', ''SOME_RESIDUE''}
     \<and> field ''residue_status'' body
          \<in> {Some (JStr ''CLEAN''), Some (JStr ''MOSTLY_CLEAN''), Some (JStr ''SOME_RESIDUE'')}
     \<and> field ''residue_status'' body'
          \<in> {Some (JStr ''CLEAN''), Some (JStr ''MOSTLY_CLEAN''), Some (JStr ''SOME_RESIDUE'')}"
proof -
  note c = calculate_entropy_world_zero [of "''d1''"]
  note a = analyze_residue_world_zero and q = quick_scan_world_zero
  note h1 = high_residue_unreachable [THEN conjunct1, rule_format, OF c]
  note h2 = high_residue_unreachable [THEN conjunct2, THEN conjunct1, rule_format, OF a]
  note h3 = high_residue_unreachable [THEN conjunct2, THEN conjunct2, rule_format, OF q]
  from h1 have "(95::real) \<le> 95 \<and> determine_residue_status 95 (fst (detect_recoverable_files 95 world_zero))
          \<in> {''CLEAN'', ''MOSTLY_CLEAN'', ''SOME_RESIDUE''}" by blast
  with c a q h2 h3 show ?thesis by blast
qed

text \<open>
  C10. In the pipeline the status is \<^verbatim>\<open>CLEAN\<close> exactly when the entropy is at least 99.8:
  from 99.8 up \<^verbatim>\<open>detect_recoverable_files\<close> returns 0, so the first branch is taken, and
  below 99.8 the first branch fails even when nothing is recoverable. The same holds of the
  fields of every 200 response of \<^verbatim>\<open>/analyze\<close> and \<^verbatim>\<open>/quick-scan\<close>.
\<close>

theorem clean_iff_entropy_threshold:
  "(determine_residue_status x (fst (detect_recoverable_files x w0)) = ''CLEAN''
      \<longleftrightarrow> x \<ge> 99.8)
   \<and> (x \<ge> 99.8 \<longrightarrow> fst (detect_recoverable_files x w0) = 0)
   \<and> (x < 99.8 \<longrightarrow> determine_residue_status x 0 \<noteq> ''CLEAN'')
   \<and> (analyze_residue rq w = ((body, 200), w') \<longrightarrow>
        (\<exists>e. field ''entropy_score'' body = Some (JFloat e)
           \<and> (field ''residue_status'' body = Some (JStr ''CLEAN'') \<longleftrightarrow> e \<ge> 99.8)))
   \<and> (quick_scan rq' w = ((body', 200), w'') \<longrightarrow>
        (\<exists>e. field ''entropy_score'' body' = Some (JFloat e)
           \<and> (field ''residue_status'' body' = Some (JStr ''CLEAN'') \<longleftrightarrow> e \<ge> 99.8)))"
proof (intro conjI impI)
  show "determine_residue_status x (fst (detect_recoverable_files x w0)) = ''CLEAN''
      \<longleftrightarrow> x \<ge> 99.8"
    by (rule pipeline_clean_iff)
next
  assume "x \<ge> 99.8"
  then show "fst (detect_recoverable_files x w0) = 0"
    by (simp add: detect_recoverable_files_def)
next
  assume "x < 99.8"
  then show "determine_residue_status x 0 \<noteq> ''CLEAN''"
    by (simp add: determine_residue_status_def)
next
  assume "analyze_residue rq w = ((body, 200), w')"
  from scored_analyze [OF this] obtain e w2 where
    f: "field ''entropy_score'' body = Some (JFloat e)"
      "field ''residue_status'' body =
         Some (JStr (determine_residue_status e (fst (detect_recoverable_files e w2))))"
    by blast
  from pipeline_clean_iff [of e w2] f
  have "field ''residue_status'' body = Some (JStr ''CLEAN'') \<longleftrightarrow> e \<ge> 99.8" by simp
  with f show "\<exists>e. field ''entropy_score'' body = Some (JFloat e)
           \<and> (field ''residue_status'' body = Some (JStr ''CLEAN'') \<longleftrightarrow> e \<ge> 99.8)"
    by blast
next
  assume "quick_scan rq' w = ((body', 200), w'')"
  from scored_quick_scan [OF this] obtain e w2 where
    f: "field ''entropy_score'' body' = Some (JFloat e)"
      "field ''residue_status'' body' =
         Some (JStr (determine_residue_status e (fst (detect_recoverable_files e w2))))"
    by blast
  from pipeline_clean_iff [of e w2] f
  have "field ''residue_status'' body' = Some (JStr ''CLEAN'') \<longleftrightarrow> e \<ge> 99.8" by simp
  with f show "\<exists>e. field ''entropy_score'' body' = Some (JFloat e)
           \<and> (field ''residue_status'' body' = Some (JStr ''CLEAN'') \<longleftrightarrow> e \<ge> 99.8)"
    by blast
qed

theorem clean_iff_entropy_threshold_witness:
  "\<exists>body w' body' w''.
     analyze_residue (Inr (JObj [(''job_id'', JStr ''j1''), (''device_id'', JStr ''d1'')]))
          world_high = ((body, 200), w')
     \<and> quick_scan (Inr (JObj [])) world_zero = ((body', 200), w'')
     \<and> field ''entropy_score'' body = Some (JFloat 100)
     \<and> field ''residue_status'' body = Some (JStr ''CLEAN'')
     \<and> field ''entropy_score'' body' = Some (JFloat 95)
     \<and> field ''residue_status'' body' \<noteq> Some (JStr ''CLEAN'')
     \<and> (100::real) \<ge> 99.8 \<and> fst (detect_recoverable_files 100 world_high) = 0
     \<and> (95::real) < 99.8 \<and> determine_residue_status 95 0 \<noteq> ''CLEAN''"
proof -
  note a = analyze_residue_world_high and q = quick_scan_world_zero
  note t = clean_iff_entropy_threshold [of 100 world_high]
  note u = clean_iff_entropy_threshold [of 95 world_zero]
  note h1 = t [THEN conjunct2, THEN conjunct2, THEN conjunct2, THEN conjunct1, rule_format, OF a]
  note h2 = u [THEN conjunct2, THEN conjunct2, THEN conjunct2, THEN conjunct2, rule_format, OF q]
  from t have d: "fst (detect_recoverable_files 100 world_high) = 0" by simp
  from u have n: "determine_residue_status 95 0 \<noteq> ''CLEAN''" by simp
  from h1 have b1: "field ''entropy_score'' (JObj [(''job_id'', JStr ''j1''),
        (''device_id'', JStr ''d1''),
        (''entropy_score'', JFloat 100), (''recoverable_files'', JInt 0),
        (''residue_status'', JStr ''CLEAN''),
        (''analysis_details'', JObj [(''sectors_analyzed'', JInt 2574024),
           (''data_patterns_found'', JInt 94), (''encryption_residue'', JBool True),
           (''metadata_traces'', JInt 28), (''file_signature_remnants'', JInt 7)]),
        (''timestamp'', JFloat (37 / 8)), (''confidence_level'', JFloat (7943 / 80))])
      = Some (JFloat 100)
     \<and> field ''residue_status'' (JObj [(''job_id'', JStr ''j1''),
        (''device_id'', JStr ''d1''),
        (''entropy_score'', JFloat 100), (''recoverable_files'', JInt 0),
        (''residue_status'', JStr ''CLEAN''),
        (''analysis_details'', JObj [(''sectors_analyzed'', JInt 2574024),
           (''data_patterns_found'', JInt 94), (''encryption_residue'', JBool True),
           (''metadata_traces'', JInt 28), (''file_signature_remnants'', JInt 7)]),
        (''timestamp'', JFloat (37 / 8)), (''confidence_level'', JFloat (7943 / 80))])
      = Some (JStr ''CLEAN'')"
    by simp
  from h2 have b2: "field ''entropy_score'' (JObj [(''entropy_score'', JFloat 95),
        (''recoverable_files'', JInt 2), (''residue_status'', JStr ''SOME_RESIDUE''),
        (''scan_progress'', JInt 100), (''estimated_time'', JInt 0)]) = Some (JFloat 95)
     \<and> field ''residue_status'' (JObj [(''entropy_score'', JFloat 95),
        (''recoverable_files'', JInt 2), (''residue_status'', JStr ''SOME_RESIDUE''),
        (''scan_progress'', JInt 100), (''estimated_time'', JInt 0)]) \<noteq> Some (JStr ''CLEAN'')"
    by simp
  have "(100::real) \<ge> 99.8" "(95::real) < 99.8" by simp_all
  with a q b1 b2 d n show ?thesis by blast
qed

section \<open>The handlers\<close>

lemma analyze_device_delays:
  "delays (snd (analyze_device j d w)) = delays w @ [fst (random_uniform 2 5 w)]"
proof -
  obtain dl w1 where 1: "random_uniform 2 5 w = (dl, w1)"
    by (cases "random_uniform 2 5 w")
  from random_uniform_frame [of 2 5 w] 1 have f1: "delays w1 = delays w" by simp
  obtain c w3 where 2: "calculate_entropy d (time_sleep dl w1) = (c, w3)"
    by (cases "calculate_entropy d (time_sleep dl w1)")
  from calculate_entropy_frame [of d "time_sleep dl w1"] 2 f1
  have f3: "delays w3 = delays w @ [dl]" by (simp add: time_sleep_def)
  show ?thesis
  proof (cases c)
    case (Inl e)
    then show ?thesis unfolding analyze_device_def 1 2 prod.case sum.case using f3 by simp
  next
    case (Inr x)
    obtain rf w4 where 3: "detect_recoverable_files x w3 = (rf, w4)"
      by (cases "detect_recoverable_files x w3")
    obtain a5 w5 where 4: "random_randint 1000000 5000000 w4 = (a5, w5)"
      by (cases "random_randint 1000000 5000000 w4")
    obtain a6 w6 where 5: "random_randint 0 100 w5 = (a6, w6)"
      by (cases "random_randint 0 100 w5")
    obtain a7 w7 where 6: "random_choice [True, False] w6 = (a7, w7)"
      by (cases "random_choice [True, False] w6")
    obtain a8 w8 where 7: "random_randint 0 50 w7 = (a8, w8)"
      by (cases "random_randint 0 50 w7")
    obtain a9 w9 where 8: "random_randint 0 20 w8 = (a9, w9)"
      by (cases "random_randint 0 20 w8")
    obtain a10 w10 where 9: "random_uniform 95.0 99.9 w9 = (a10, w10)"
      by (cases "random_uniform 95.0 99.9 w9")
    from detect_recoverable_files_frame [of x w3] 3 have "delays w4 = delays w3" by simp
    moreover from random_randint_frame [of 1000000 5000000 w4] 4 have "delays w5 = delays w4"
      by simp
    moreover from random_randint_frame [of 0 100 w5] 5 have "delays w6 = delays w5" by simp
    moreover from random_choice_frame [of "[True, False]" w6] 6 have "delays w7 = delays w6"
      by simp
    moreover from random_randint_frame [of 0 50 w7] 7 have "delays w8 = delays w7" by simp
    moreover from random_randint_frame [of 0 20 w8] 8 have "delays w9 = delays w8" by simp
    moreover from random_uniform_frame [of "95.0" "99.9" w9] 9 have "delays w10 = delays w9"
      by simp
    ultimately have "delays w10 = delays w @ [dl]" using f3 by simp
    then show ?thesis
      unfolding analyze_device_def Let_def 1 2 Inr 3 4 5 6 7 8 9 prod.case sum.case by simp
  qed
qed

lemma analyze_device_changes_state: "snd (analyze_device j d w) \<noteq> w"
proof
  assume "snd (analyze_device j d w) = w"
  then have "delays (snd (analyze_device j d w)) = delays w" by simp
  then show False by (simp add: analyze_device_delays)
qed

lemma analyze_residue_falsy:
  assumes "\<not> truthy (case map_of kvs ''job_id'' of None \<Rightarrow> JNull | Some v \<Rightarrow> v)
     \<or> \<not> truthy (case map_of kvs ''device_id'' of None \<Rightarrow> JNull | Some v \<Rightarrow> v)"
  shows "analyze_residue (Inr (JObj kvs)) w =
     ((JObj [(''error'', JStr ''Missing required parameters: job_id and device_id'')], 400), w)"
  using assms by (auto simp: analyze_residue_def analyze_residue_try_def)

text \<open>
  C5. When the body of \<^verbatim>\<open>POST /analyze\<close> is a JSON object in which \<^verbatim>\<open>job_id\<close> or
  \<^verbatim>\<open>device_id\<close> is missing or the empty string, the response is status 400 with an error
  message that names both fields, and the process state is as before: no number was drawn
  and nothing slept, whereas every call of \<^verbatim>\<open>analyze_device\<close> changes the state.
\<close>

theorem analyze_missing_field_400:
  assumes "map_of kvs ''job_id'' \<in> {None, Some (JStr [])}
     \<or> map_of kvs ''device_id'' \<in> {None, Some (JStr [])}"
  shows "analyze_residue (Inr (JObj kvs)) w =
      ((JObj [(''error'',
          JStr (''Missing required parameters: '' @ ''job_id'' @ '' and '' @ ''device_id''))],
        400), w)
     \<and> (\<forall>j d. snd (analyze_device j d w) \<noteq> w)"
proof -
  from assms have "\<not> truthy (case map_of kvs ''job_id'' of None \<Rightarrow> JNull | Some v \<Rightarrow> v)
     \<or> \<not> truthy (case map_of kvs ''device_id'' of None \<Rightarrow> JNull | Some v \<Rightarrow> v)"
    by auto
  from analyze_residue_falsy [OF this, of w] analyze_device_changes_state [of _ _ w]
  show ?thesis by simp
qed

theorem analyze_missing_field_400_witness:
  "map_of [(''job_id'', JStr ''j1'')] ''device_id'' = None
   \<and> analyze_residue (Inr (JObj [(''job_id'', JStr ''j1'')])) world_zero =
      ((JObj [(''error'', JStr ''Missing required parameters: job_id and device_id'')], 400),
       world_zero)
   \<and> map_of [(''job_id'', JStr ''''), (''device_id'', JStr ''d1'')] ''job_id'' = Some (JStr [])
   \<and> analyze_residue (Inr (JObj [(''job_id'', JStr ''''), (''device_id'', JStr ''d1'')]))
        world_zero =
      ((JObj [(''error'', JStr ''Missing required parameters: job_id and device_id'')], 400),
       world_zero)"
proof -
  have 1: "map_of [(''job_id'', JStr ''j1'')] ''device_id'' = None" by simp
  have 2: "map_of [(''job_id'', JStr ''''), (''device_id'', JStr ''d1'')] ''job_id''
    = Some (JStr [])" by simp
  from 1 have h1: "map_of [(''job_id'', JStr ''j1'')] ''job_id'' \<in> {None, Some (JStr [])}
     \<or> map_of [(''job_id'', JStr ''j1'')] ''device_id'' \<in> {None, Some (JStr [])}" by simp
  from 2 have h2: "map_of [(''job_id'', JStr ''''), (''device_id'', JStr ''d1'')] ''job_id''
       \<in> {None, Some (JStr [])}
     \<or> map_of [(''job_id'', JStr ''''), (''device_id'', JStr ''d1'')] ''device_id''
       \<in> {None, Some (JStr [])}" by simp
  from analyze_missing_field_400 [OF h1, of world_zero]
    analyze_missing_field_400 [OF h2, of world_zero] 1 2
  show ?thesis by simp
qed

subsection \<open>Exceptions\<close>

lemma analyze_residue_try_get_json_raises: "analyze_residue_try (Inl e) w = (Inl e, w)"
  by (simp add: analyze_residue_try_def)

lemma analyze_residue_try_not_dict:
  assumes "\<forall>kvs. v \<noteq> JObj kvs"
  shows "analyze_residue_try (Inr v) w =
    (Inl (AttributeError
       (quoted (type_name v) @ '' object has no attribute '' @ quoted ''get'')), w)"
  using assms by (cases v) (simp_all add: analyze_residue_try_def)

lemma quick_scan_try_not_dict:
  assumes "\<forall>kvs. v \<noteq> JObj kvs"
  shows "quick_scan_try (Inr v) w =
    (Inl (AttributeError
       (quoted (type_name v) @ '' object has no attribute '' @ quoted ''get'')), w)"
  using assms by (cases v) (simp_all add: quick_scan_try_def)

lemma analyze_residue_status:
  "snd (fst (analyze_residue rq w)) \<in> {200, 400, 500}
   \<and> (snd (fst (analyze_residue rq w)) = 500
        \<longleftrightarrow> (\<exists>e. fst (analyze_residue_try rq w) = Inl e))"
  by (auto simp: analyze_residue_def analyze_residue_try_def
      split: sum.splits prod.splits if_splits)

lemma quick_scan_status:
  "snd (fst (quick_scan rq w)) \<in> {200, 500}
   \<and> (snd (fst (quick_scan rq w)) = 500 \<longleftrightarrow> (\<exists>e. fst (quick_scan_try rq w) = Inl e))"
  by (auto simp: quick_scan_def quick_scan_try_def Let_def
      split: sum.splits prod.splits if_splits)

text \<open>
  C6. An exception raised anywhere in the \<^verbatim>\<open>try\<close> block of \<^verbatim>\<open>POST /analyze\<close> becomes a
  response of status 500 whose body has exactly the fields \<^verbatim>\<open>error\<close>, \<^verbatim>\<open>entropy_score\<close>
  0.0, \<^verbatim>\<open>recoverable_files\<close> 999 and \<^verbatim>\<open>residue_status\<close> \<^verbatim>\<open>ERROR\<close>; on the quick-scan path
  it becomes a response of status 500 whose body has the field \<^verbatim>\<open>error\<close> alone. The
  handlers give status 500 in no other case, and the exception is not propagated: a
  handler returns a response on every request.
\<close>

theorem exception_becomes_500:
  "(analyze_residue_try rq w = (Inl e, w1) \<longrightarrow>
      analyze_residue rq w =
        ((JObj [(''error'', JStr (''Analysis failed: '' @ str_exn e)),
                (''entropy_score'', JFloat 0.0),
                (''recoverable_files'', JInt 999),
                (''residue_status'', JStr ''ERROR'')], 500), w1))
   \<and> (quick_scan_try rq' w = (Inl e', w2) \<longrightarrow>
      quick_scan rq' w =
        ((JObj [(''error'', JStr (''Quick scan failed: '' @ str_exn e'))], 500), w2)
      \<and> keys (fst (fst (quick_scan rq' w))) = [''error''])
   \<and> (snd (fst (analyze_residue rq w)) = 500
        \<longleftrightarrow> (\<exists>x. fst (analyze_residue_try rq w) = Inl x))
   \<and> (snd (fst (quick_scan rq' w)) = 500
        \<longleftrightarrow> (\<exists>x. fst (quick_scan_try rq' w) = Inl x))"
  using analyze_residue_status [of rq w] quick_scan_status [of rq' w]
  by (simp add: analyze_residue_def quick_scan_def)

theorem exception_becomes_500_witness:
  "analyze_residue_try (Inr (JArr [])) world_zero =
      (Inl (AttributeError (quoted ''list'' @ '' object has no attribute '' @ quoted ''get'')),
       world_zero)
   \<and> analyze_residue (Inr (JArr [])) world_zero =
        ((JObj [(''error'', JStr (''Analysis failed: '' @ quoted ''list''
                   @ '' object has no attribute '' @ quoted ''get'')),
                (''entropy_score'', JFloat 0.0),
                (''recoverable_files'', JInt 999),
                (''residue_status'', JStr ''ERROR'')], 500), world_zero)
   \<and> quick_scan_try (Inl (HTTPException ''400 Bad Request'')) world_zero =
        (Inl (HTTPException ''400 Bad Request''), world_zero)
   \<and> quick_scan (Inl (HTTPException ''400 Bad Request'')) world_zero =
        ((JObj [(''error'', JStr ''Quick scan failed: 400 Bad Request'')], 500), world_zero)"
proof -
  have a: "analyze_residue_try (Inr (JArr [])) world_zero =
      (Inl (AttributeError (quoted ''list'' @ '' object has no attribute '' @ quoted ''get'')),
       world_zero)"
    by (simp add: analyze_residue_try_def)
  have q: "quick_scan_try (Inl (HTTPException ''400 Bad Request'')) world_zero =
        (Inl (HTTPException ''400 Bad Request''), world_zero)"
    by (simp add: quick_scan_try_def)
  note h1 = exception_becomes_500 [THEN conjunct1, rule_format, OF a]
  note h2 = exception_becomes_500 [THEN conjunct2, THEN conjunct1, rule_format, OF q]
  from a q h1 h2 show ?thesis by simp
qed

lemma quick_scan_no_delay:
  "delays (snd (quick_scan rq w)) = delays w \<and> clock (snd (quick_scan rq w)) = clock w"
proof (cases "\<exists>d. (case rq of Inl e \<Rightarrow> Inl e | Inr data \<Rightarrow> py_get data ''device_id'' (JStr ''unknown'')) = Inr d")
  case False
  then show ?thesis
    by (auto simp: quick_scan_def quick_scan_try_def split: sum.splits)
next
  case True
  then obtain data d where rq: "rq = Inr data"
    and d: "py_get data ''device_id'' (JStr ''unknown'') = Inr d"
    by (auto split: sum.splits)
  obtain c w1 where c: "calculate_entropy d w = (c, w1)" by (cases "calculate_entropy d w")
  from calculate_entropy_frame [of d w] c
  have f1: "delays w1 = delays w" "clock w1 = clock w" by simp_all
  show ?thesis
  proof (cases c)
    case (Inl e)
    with f1 show ?thesis by (simp add: quick_scan_def quick_scan_try_def rq d c)
  next
    case (Inr x)
    obtain n w2 where n: "detect_recoverable_files x w1 = (n, w2)"
      by (cases "detect_recoverable_files x w1")
    from detect_recoverable_files_frame [of x w1] n f1
    have "delays w2 = delays w" "clock w2 = clock w" by simp_all
    then show ?thesis by (simp add: quick_scan_def quick_scan_try_def rq d c Inr n)
  qed
qed

text \<open>
  C8. When the body of \<^verbatim>\<open>POST /quick-scan\<close> is a JSON object without \<^verbatim>\<open>device_id\<close> (as
  \<^verbatim>\<open>{}\<close>), the response has status 200, the entropy is computed for the identifier
  \<^verbatim>\<open>"unknown"\<close>, nothing sleeps, and the body holds \<^verbatim>\<open>entropy_score\<close>,
  \<^verbatim>\<open>recoverable_files\<close>, \<^verbatim>\<open>residue_status\<close>, \<^verbatim>\<open>scan_progress\<close> 100 and
  \<^verbatim>\<open>estimated_time\<close> 0.
\<close>

theorem quick_scan_default_device:
  assumes "map_of kvs ''device_id'' = None"
  shows "\<exists>x w1 n w2.
     calculate_entropy (JStr ''unknown'') w = (Inr x, w1)
     \<and> detect_recoverable_files x w1 = (n, w2)
     \<and> quick_scan (Inr (JObj kvs)) w =
         ((JObj [(''entropy_score'', JFloat x),
                 (''recoverable_files'', JInt n),
                 (''residue_status'', JStr (determine_residue_status x n)),
                 (''scan_progress'', JInt 100),
                 (''estimated_time'', JInt 0)], 200), w2)
     \<and> delays w2 = delays w \<and> clock w2 = clock w"
proof -
  from calculate_entropy_str_returns [of "''unknown''" w] obtain x w1 where
    c: "calculate_entropy (JStr ''unknown'') w = (Inr x, w1)" by blast
  obtain n w2 where n: "detect_recoverable_files x w1 = (n, w2)"
    by (cases "detect_recoverable_files x w1")
  from assms have q: "quick_scan (Inr (JObj kvs)) w =
         ((JObj [(''entropy_score'', JFloat x),
                 (''recoverable_files'', JInt n),
                 (''residue_status'', JStr (determine_residue_status x n)),
                 (''scan_progress'', JInt 100),
                 (''estimated_time'', JInt 0)], 200), w2)"
    by (simp add: quick_scan_def quick_scan_try_def c n)
  from quick_scan_no_delay [of "Inr (JObj kvs)" w] q
  have "delays w2 = delays w \<and> clock w2 = clock w" by simp
  with c n q show ?thesis by blast
qed

theorem quick_scan_default_device_witness:
  "map_of [] ''device_id'' = (None :: json option)
   \<and> calculate_entropy (JStr ''unknown'') world_zero = (Inr 95, world_zero)
   \<and> quick_scan (Inr (JObj [])) world_zero =
     ((JObj [(''entropy_score'', JFloat 95), (''recoverable_files'', JInt 2),
             (''residue_status'', JStr ''SOME_RESIDUE''), (''scan_progress'', JInt 100),
             (''estimated_time'', JInt 0)], 200), world_zero)"
proof -
  have h: "map_of [] ''device_id'' = (None :: json option)" by simp
  from quick_scan_default_device [OF h, of world_zero]
    calculate_entropy_world_zero [of "''unknown''"] detect_world_zero h
  show ?thesis by (auto simp: determine_residue_status_def)
qed

section \<open>The radar patterns\<close>

lemma patterns_loop_appends:
  "\<exists>new. fst (patterns_loop idx acc w) = acc @ new
     \<and> length new = length idx
     \<and> map (field ''angle'') new = map (\<lambda>i. Some (JInt (int i))) idx
     \<and> (\<forall>p \<in> set new. \<exists>d i t.
           field ''distance'' p = Some (JFloat d) \<and> 0.1 \<le> d \<and> d < 1.0
           \<and> field ''intensity'' p = Some (JFloat i) \<and> 0 \<le> i \<and> i < 100
           \<and> field ''pattern_type'' p = Some (JStr t)
           \<and> t \<in> {''deleted_file'', ''metadata'', ''free_space'', ''encrypted''})"
proof (induction idx arbitrary: acc w)
  case Nil
  then show ?case by simp
next
  case (Cons a idx)
  obtain d w1 where 1: "random_uniform 0.1 1.0 w = (d, w1)"
    by (cases "random_uniform 0.1 1.0 w")
  obtain i w2 where 2: "random_uniform 0 100 w1 = (i, w2)"
    by (cases "random_uniform 0 100 w1")
  obtain t w3 where
    3: "random_choice [''deleted_file'', ''metadata'', ''free_space'', ''encrypted''] w2 = (t, w3)"
    by (cases "random_choice [''deleted_file'', ''metadata'', ''free_space'', ''encrypted''] w2")
  define p where "p = JObj [(''angle'', JInt (int a)), (''distance'', JFloat d),
     (''intensity'', JFloat i), (''pattern_type'', JStr t)]"
  from random_uniform_range [of "0.1" "1.0" w] random_uniform_less [of "0.1" "1.0" w] 1
  have dr: "0.1 \<le> d" "d < 1.0" by simp_all
  from random_uniform_range [of 0 100 w1] random_uniform_less [of 0 100 w1] 2
  have ir: "0 \<le> i" "i < 100" by simp_all
  from random_choice_mem [of "[''deleted_file'', ''metadata'', ''free_space'', ''encrypted'']" w2] 3
  have tr: "t \<in> {''deleted_file'', ''metadata'', ''free_space'', ''encrypted''}" by simp
  have step: "patterns_loop (a # idx) acc w = patterns_loop idx (acc @ [p]) w3"
    unfolding patterns_loop.simps Let_def 1 2 3 prod.case p_def by (rule refl)
  from Cons.IH [of "acc @ [p]" w3] obtain new where
    n: "fst (patterns_loop idx (acc @ [p]) w3) = (acc @ [p]) @ new"
      "length new = length idx"
      "map (field ''angle'') new = map (\<lambda>i. Some (JInt (int i))) idx"
      "\<forall>p \<in> set new. \<exists>d i t.
           field ''distance'' p = Some (JFloat d) \<and> 0.1 \<le> d \<and> d < 1.0
           \<and> field ''intensity'' p = Some (JFloat i) \<and> 0 \<le> i \<and> i < 100
           \<and> field ''pattern_type'' p = Some (JStr t)
           \<and> t \<in> {''deleted_file'', ''metadata'', ''free_space'', ''encrypted''}"
    by blast
  have pf: "field ''angle'' p = Some (JInt (int a))" "field ''distance'' p = Some (JFloat d)"
    "field ''intensity'' p = Some (JFloat i)" "field ''pattern_type'' p = Some (JStr t)"
    by (simp_all add: p_def)
  have "fst (patterns_loop (a # idx) acc w) = acc @ (p # new)"
    unfolding step n(1) by simp
  moreover have "length (p # new) = length (a # idx)" using n(2) by simp
  moreover have "map (field ''angle'') (p # new) = map (\<lambda>i. Some (JInt (int i))) (a # idx)"
    using n(3) pf(1) by simp
  moreover have "\<forall>p \<in> set (p # new). \<exists>d i t.
           field ''distance'' p = Some (JFloat d) \<and> 0.1 \<le> d \<and> d < 1.0
           \<and> field ''intensity'' p = Some (JFloat i) \<and> 0 \<le> i \<and> i < 100
           \<and> field ''pattern_type'' p = Some (JStr t)
           \<and> t \<in> {''deleted_file'', ''metadata'', ''free_space'', ''encrypted''}"
    using n(4) pf dr ir tr by auto
  ultimately show ?case by blast
qed

lemma random_uniform_world_zero: "random_uniform a b world_zero = (a, world_zero)"
  by (simp add: random_uniform_def random_random_def next_raw_world_zero)

lemma random_choice_world_zero: "random_choice (x # xs) world_zero = (x, world_zero)"
  by (simp add: random_choice_def randbelow_def next_raw_world_zero)

lemma patterns_loop_world_zero:
  "patterns_loop idx acc world_zero =
     (acc @ map (\<lambda>i. JObj [(''angle'', JInt (int i)), (''distance'', JFloat 0.1),
                          (''intensity'', JFloat 0), (''pattern_type'', JStr ''deleted_file'')])
              idx, world_zero)"
proof (induction idx arbitrary: acc)
  case Nil
  then show ?case by simp
next
  case (Cons a idx)
  show ?case
    unfolding patterns_loop.simps Let_def random_uniform_world_zero random_choice_world_zero
      prod.case Cons.IH
    by simp
qed

text \<open>
  C7, as the code has it. \<^verbatim>\<open>GET /simulation/patterns\<close> returns status 200 with exactly
  360 entries whose angles are 0, 1, ..., 359 in this order (so each angle occurs once),
  each distance in the closed interval \<open>[0.1, 1.0]\<close>, each intensity in \<open>[0, 100)\<close>,
  each \<^verbatim>\<open>pattern_type\<close> one of \<^verbatim>\<open>deleted_file\<close>, \<^verbatim>\<open>metadata\<close>, \<^verbatim>\<open>free_space\<close>,
  \<^verbatim>\<open>encrypted\<close>, together with \<^verbatim>\<open>scan_radius\<close> 1.0 and \<^verbatim>\<open>total_points\<close> 360.
\<close>

theorem get_data_patterns_shape:
  "\<exists>ps w'. get_data_patterns w =
       ((JObj [(''patterns'', JArr ps), (''scan_radius'', JFloat 1.0),
               (''total_points'', JInt 360)], 200), w')
     \<and> length ps = 360
     \<and> map (field ''angle'') ps = map (\<lambda>i. Some (JInt (int i))) [0..<360]
     \<and> distinct (map (field ''angle'') ps)
     \<and> (\<forall>p \<in> set ps. \<exists>d i t.
           field ''distance'' p = Some (JFloat d) \<and> 0.1 \<le> d \<and> d \<le> 1.0
           \<and> field ''intensity'' p = Some (JFloat i) \<and> 0 \<le> i \<and> i < 100
           \<and> field ''pattern_type'' p = Some (JStr t)
           \<and> t \<in> {''deleted_file'', ''metadata'', ''free_space'', ''encrypted''})"
proof -
  define idx :: "nat list" where "idx = [0..<360]"
  have len: "length idx = 360" unfolding idx_def length_upt by simp
  have di: "distinct idx" unfolding idx_def by (rule distinct_upt)
  obtain l w' where l: "patterns_loop idx [] w = (l, w')"
    by (cases "patterns_loop idx [] w")
  from patterns_loop_appends [of idx "[]" w] obtain ps where
    ps0: "fst (patterns_loop idx [] w) = [] @ ps"
    and ps: "length ps = length idx"
      "map (field ''angle'') ps = map (\<lambda>i. Some (JInt (int i))) idx"
      "\<forall>p \<in> set ps. \<exists>d i t.
           field ''distance'' p = Some (JFloat d) \<and> 0.1 \<le> d \<and> d < 1.0
           \<and> field ''intensity'' p = Some (JFloat i) \<and> 0 \<le> i \<and> i < 100
           \<and> field ''pattern_type'' p = Some (JStr t)
           \<and> t \<in> {''deleted_file'', ''metadata'', ''free_space'', ''encrypted''}"
    by blast
  from ps0 have lp: "l = ps" unfolding l fst_conv append_Nil .
  have n: "length ps = 360" using ps(1) len by (rule trans)
  have g: "get_data_patterns w =
       ((JObj [(''patterns'', JArr ps), (''scan_radius'', JFloat 1.0),
               (''total_points'', JInt 360)], 200), w')"
    unfolding get_data_patterns_def idx_def [symmetric] l prod.case lp n by simp
  have "inj_on (\<lambda>i. Some (JInt (int i))) (set idx)" by (simp add: inj_on_def)
  with di have dist: "distinct (map (field ''angle'') ps)"
    unfolding ps(2) by (simp add: distinct_map)
  note a = ps(2) [unfolded idx_def]
  have r: "\<forall>p \<in> set ps. \<exists>d i t.
           field ''distance'' p = Some (JFloat d) \<and> 0.1 \<le> d \<and> d \<le> 1.0
           \<and> field ''intensity'' p = Some (JFloat i) \<and> 0 \<le> i \<and> i < 100
           \<and> field ''pattern_type'' p = Some (JStr t)
           \<and> t \<in> {''deleted_file'', ''metadata'', ''free_space'', ''encrypted''}"
  proof
    fix p assume "p \<in> set ps"
    from bspec [OF ps(3) this] obtain d i t where f:
      "field ''distance'' p = Some (JFloat d)" "0.1 \<le> d" "d < 1.0"
      "field ''intensity'' p = Some (JFloat i)" "0 \<le> i" "i < 100"
      "field ''pattern_type'' p = Some (JStr t)"
      "t \<in> {''deleted_file'', ''metadata'', ''free_space'', ''encrypted''}"
      by (elim exE conjE) (rule that)
    from f(3) have "d \<le> 1.0" by (rule less_imp_le)
    with f show "\<exists>d i t.
           field ''distance'' p = Some (JFloat d) \<and> 0.1 \<le> d \<and> d \<le> 1.0
           \<and> field ''intensity'' p = Some (JFloat i) \<and> 0 \<le> i \<and> i < 100
           \<and> field ''pattern_type'' p = Some (JStr t)
           \<and> t \<in> {''deleted_file'', ''metadata'', ''free_space'', ''encrypted''}"
      by (intro exI conjI)
  qed
  show ?thesis
    by (rule exI [of _ ps], rule exI [of _ w'], intro conjI)
      (rule g, rule n, rule a, rule dist, rule r)
qed

theorem get_data_patterns_shape_witness:
  "\<exists>ps w'. get_data_patterns world_zero =
       ((JObj [(''patterns'', JArr ps), (''scan_radius'', JFloat 1.0),
               (''total_points'', JInt 360)], 200), w')
     \<and> length ps = 360
     \<and> hd ps \<in> set ps
     \<and> (\<exists>d i t.
           field ''distance'' (hd ps) = Some (JFloat d) \<and> 0.1 \<le> d \<and> d \<le> 1.0
           \<and> field ''intensity'' (hd ps) = Some (JFloat i) \<and> 0 \<le> i \<and> i < 100
           \<and> field ''pattern_type'' (hd ps) = Some (JStr t)
           \<and> t \<in> {''deleted_file'', ''metadata'', ''free_space'', ''encrypted''})"
proof -
  from get_data_patterns_shape [of world_zero] obtain ps w' where
    g: "get_data_patterns world_zero =
       ((JObj [(''patterns'', JArr ps), (''scan_radius'', JFloat 1.0),
               (''total_points'', JInt 360)], 200), w')"
    and n: "length ps = 360"
    and b: "\<forall>p \<in> set ps. \<exists>d i t.
           field ''distance'' p = Some (JFloat d) \<and> 0.1 \<le> d \<and> d \<le> 1.0
           \<and> field ''intensity'' p = Some (JFloat i) \<and> 0 \<le> i \<and> i < 100
           \<and> field ''pattern_type'' p = Some (JStr t)
           \<and> t \<in> {''deleted_file'', ''metadata'', ''free_space'', ''encrypted''}"
    by (elim exE conjE) (rule that)
  have "length ps \<noteq> 0" unfolding n by simp
  then have "ps \<noteq> []" by (simp only: length_0_conv not_False_eq_True)
  then have h: "hd ps \<in> set ps" by (rule hd_in_set)
  note r = bspec [OF b h]
  show ?thesis
    by (rule exI [of _ ps], rule exI [of _ w'], intro conjI) (rule g, rule n, rule h, rule r)
qed

text \<open>
  C7 as the specification states it asks for distances in the half-open interval
  \<open>(0.1, 1.0]\<close>. When the generator's raw outputs are 0, \<^verbatim>\<open>random.random()\<close> is 0.0 and
  \<^verbatim>\<open>random.uniform(0.1, 1.0)\<close> is exactly 0.1: each of the 360 entries then has distance
  0.1, which is not in \<open>(0.1, 1.0]\<close>.
\<close>

theorem get_data_patterns_distance_counterexample:
  "fst (get_data_patterns world_zero) =
     (JObj [(''patterns'', JArr (map (\<lambda>i. JObj [(''angle'', JInt (int i)),
                (''distance'', JFloat 0.1), (''intensity'', JFloat 0),
                (''pattern_type'', JStr ''deleted_file'')]) [0..<360])),
            (''scan_radius'', JFloat 1.0),
            (''total_points'', JInt 360)], 200)
   \<and> (0.1 :: real) \<notin> {0.1 <.. 1.0}"
  by (simp add: get_data_patterns_def patterns_loop_world_zero)

end
